theory Spec2Isabelle
  imports Main "HOL-Library.Multiset"
begin

section \<open>Strings\<close>

text \<open>
  A JavaScript string is modelled as a \<open>string\<close>: one \<open>char\<close> per UTF-16 code unit, for
  code units below 256. The string methods the vault service calls are written out below.
\<close>

definition startsWith :: "string \<Rightarrow> string \<Rightarrow> bool" where
  "startsWith s p = (take (length p) s = p)"

definition endsWith :: "string \<Rightarrow> string \<Rightarrow> bool" where
  "endsWith s p = (length p \<le> length s \<and> drop (length s - length p) s = p)"

text \<open>\<open>xs.slice(start, end)\<close> for non-negative indices, on strings and arrays.\<close>

definition slice :: "'a list \<Rightarrow> nat \<Rightarrow> nat \<Rightarrow> 'a list" where
  "slice xs start stop = take (stop - start) (drop start xs)"

text \<open>\<open>toLowerCase\<close>: A-Z and the Latin-1 capitals (except the multiplication sign).\<close>

definition toLowerChar :: "char \<Rightarrow> char" where
  "toLowerChar c =
     (let n = (of_char c :: nat)
      in if (65 \<le> n \<and> n \<le> 90) \<or> (192 \<le> n \<and> n \<le> 222 \<and> n \<noteq> 215)
         then char_of (n + 32) else c)"

definition toLowerCase :: "string \<Rightarrow> string" where
  "toLowerCase s = map toLowerChar s"

text \<open>\<open>s.indexOf(q)\<close>, with \<open>None\<close> for -1, and \<open>s.includes(q)\<close>.\<close>

fun indexOf :: "string \<Rightarrow> string \<Rightarrow> nat option" where
  "indexOf [] q = (if q = [] then Some 0 else None)"
| "indexOf (c # s) q =
     (if startsWith (c # s) q then Some 0 else map_option Suc (indexOf s q))"

definition str_includes :: "string \<Rightarrow> string \<Rightarrow> bool" where
  "str_includes s q = (indexOf s q \<noteq> None)"


definition is_alnum :: "char \<Rightarrow> bool" where
  "is_alnum c =
     (let n = (of_char c :: nat)
      in (48 \<le> n \<and> n \<le> 57) \<or> (65 \<le> n \<and> n \<le> 90) \<or> (97 \<le> n \<and> n \<le> 122))"

definition is_space :: "char \<Rightarrow> bool" where
  "is_space c = ((of_char c :: nat) \<in> {9, 10, 11, 12, 13, 32, 160})"

definition is_line_terminator :: "char \<Rightarrow> bool" where
  "is_line_terminator c = ((of_char c :: nat) \<in> {10, 13})"

definition trim :: "string \<Rightarrow> string" where
  "trim s = rev (dropWhile is_space (rev (dropWhile is_space s)))"

text \<open>\<open>s.split('\n')\<close>: an empty string gives one empty line.\<close>

fun split_lines :: "string \<Rightarrow> string list" where
  "split_lines [] = [[]]"
| "split_lines (c # s) =
     (if c = CHR 0x0A then [] # split_lines s
      else (case split_lines s of [] \<Rightarrow> [[c]] | l # ls \<Rightarrow> (c # l) # ls))"

text \<open>A stable sort in descending order of a numeric key: \<open>xs.sort((a, b) => f(b) - f(a))\<close>.\<close>

definition sort_desc :: "('a \<Rightarrow> int) \<Rightarrow> 'a list \<Rightarrow> 'a list" where
  "sort_desc f xs = sort_key (\<lambda>x. - f x) xs"

text \<open>
  A \<open>Set\<close> of strings in insertion order, and an object used as a dictionary: an
  assignment to an existing key keeps its place, a new key goes last.
\<close>

definition set_add :: "string list \<Rightarrow> string \<Rightarrow> string list" where
  "set_add xs x = (if x \<in> set xs then xs else xs @ [x])"

fun obj_set :: "(string \<times> 'v) list \<Rightarrow> string \<Rightarrow> 'v \<Rightarrow> (string \<times> 'v) list" where
  "obj_set [] k v = [(k, v)]"
| "obj_set (p # ps) k v = (if fst p = k then (k, v) # ps else p # obj_set ps k v)"

text \<open>The object spread \<open>{...base, ...over}\<close>.\<close>

definition spread :: "(string \<times> 'v) list \<Rightarrow> (string \<times> 'v) list \<Rightarrow> (string \<times> 'v) list" where
  "spread base over = fold (\<lambda>kv acc. obj_set acc (fst kv) (snd kv)) over base"

section \<open>Regular expressions\<close>

text \<open>
  The regular expression literals of constants.ts and vault.ts, as syntax trees, and the
  backtracking matcher of ECMAScript for them: a match state is the index, the rest of
  the input and the captures; \<open>rx_match\<close> lists the states a pattern can end in, in the
  order in which backtracking tries them, so the head of the list is the match.
\<close>

datatype rx =
    Chr "char \<Rightarrow> bool"
  | Bol
  | Eol
  | Eps
  | Seq rx rx
  | Opt rx
  | Star rx
  | LazyStar rx
  | Grp nat rx

type_synonym captures = "nat \<rightharpoonup> string"

type_synonym mstate = "nat \<times> string \<times> captures"

text \<open>
  Repetition: an iteration that consumes nothing is rejected, so the length of the input
  bounds the number of iterations. Greedy repetition tries one more iteration first, lazy
  repetition tries to stop first.
\<close>

fun iterate :: "bool \<Rightarrow> (mstate \<Rightarrow> mstate list) \<Rightarrow> nat \<Rightarrow> mstate \<Rightarrow> mstate list" where
  "iterate greedy step 0 st = [st]"
| "iterate greedy step (Suc n) st =
     (let more = concat (map (\<lambda>st'. if length (fst (snd st')) < length (fst (snd st))
                                      then iterate greedy step n st' else [])
                             (step st))
      in if greedy then more @ [st] else st # more)"

primrec rx_match :: "rx \<Rightarrow> mstate \<Rightarrow> mstate list" where
  "rx_match (Chr P) st =
     (case fst (snd st) of
        [] \<Rightarrow> []
      | c # t \<Rightarrow> if P c then [(Suc (fst st), t, snd (snd st))] else [])"
| "rx_match Bol st = (if fst st = 0 then [st] else [])"
| "rx_match Eol st = (if fst (snd st) = [] then [st] else [])"
| "rx_match Eps st = [st]"
| "rx_match (Seq a b) st = concat (map (rx_match b) (rx_match a st))"
| "rx_match (Opt a) st = rx_match a st @ [st]"
| "rx_match (Star a) st = iterate True (rx_match a) (length (fst (snd st))) st"
| "rx_match (LazyStar a) st = iterate False (rx_match a) (length (fst (snd st))) st"
| "rx_match (Grp k a) st =
     map (\<lambda>st'. (fst st', fst (snd st'),
                 (snd (snd st'))(k \<mapsto> take (fst st' - fst st) (fst (snd st)))))
         (rx_match a st)"

text \<open>A match: \<open>match[0]\<close>, the groups (\<open>None\<close> for undefined) and the index.\<close>

record rmatch =
  m0 :: string
  mgroups :: captures
  mindex :: nat

definition group_str :: "rmatch \<Rightarrow> nat \<Rightarrow> string" where
  "group_str m k = (case mgroups m k of Some s \<Rightarrow> s | None \<Rightarrow> [])"

text \<open>
  \<open>s.matchAll(r)\<close> for a global pattern: the leftmost match from the last index on, then
  on from its end; after an empty match the index advances by one.
\<close>

function matchAll_at :: "rx \<Rightarrow> nat \<Rightarrow> string \<Rightarrow> rmatch list" where
  "matchAll_at r i s =
     (case rx_match r (i, s, Map.empty) of
        [] \<Rightarrow> (case s of [] \<Rightarrow> [] | c # t \<Rightarrow> matchAll_at r (Suc i) t)
      | st # other \<Rightarrow>
          \<lparr> m0 = take (fst st - i) s, mgroups = snd (snd st), mindex = i \<rparr> #
          (if s = [] then []
           else matchAll_at r (i + max 1 (fst st - i)) (drop (max 1 (fst st - i)) s)))"
  by pat_completeness auto
termination
  by (relation "measure (\<lambda>(r, i, s). length s)") auto

declare matchAll_at.simps [simp del]

definition matchAll :: "string \<Rightarrow> rx \<Rightarrow> rmatch list" where
  "matchAll s r = matchAll_at r 0 s"

text \<open>\<open>r.exec(s)\<close> for a pattern without flags: the leftmost match from index 0.\<close>

fun exec_at :: "rx \<Rightarrow> nat \<Rightarrow> string \<Rightarrow> rmatch option" where
  "exec_at r i s =
     (case rx_match r (i, s, Map.empty) of
        st # other \<Rightarrow> Some \<lparr> m0 = take (fst st - i) s, mgroups = snd (snd st), mindex = i \<rparr>
      | [] \<Rightarrow> (case s of [] \<Rightarrow> None | c # t \<Rightarrow> exec_at r (Suc i) t))"

declare exec_at.simps [simp del]

definition exec :: "rx \<Rightarrow> string \<Rightarrow> rmatch option" where
  "exec r s = exec_at r 0 s"

definition lit :: "char \<Rightarrow> rx" where
  "lit c = Chr (\<lambda>x. x = c)"

definition none_of :: "string \<Rightarrow> rx" where
  "none_of cs = Chr (\<lambda>x. x \<notin> set cs)"

definition many1 :: "rx \<Rightarrow> rx" where
  "many1 r = Seq r (Star r)"

definition many1_lazy :: "rx \<Rightarrow> rx" where
  "many1_lazy r = Seq r (LazyStar r)"

definition seqs :: "rx list \<Rightarrow> rx" where
  "seqs rs = foldr Seq rs Eps"

text \<open>\<open>r{1,n+1}\<close>, greedy.\<close>

fun upto_more :: "nat \<Rightarrow> rx \<Rightarrow> rx" where
  "upto_more 0 r = Eps"
| "upto_more (Suc n) r = Opt (Seq r (upto_more n r))"

text \<open>\<open>/!?\[\[([^\]|#^]+)(?:#([^\]|^]+))?(?:\^([^\]|]+))?(?:\|([^\]]+))?\]\]/g\<close>\<close>

definition WIKI_LINK_REGEX :: rx where
  "WIKI_LINK_REGEX = seqs
     [Opt (lit CHR ''!''), lit CHR ''['', lit CHR ''['',
      Grp 1 (many1 (none_of '']|#^'')),
      Opt (Seq (lit CHR ''#'') (Grp 2 (many1 (none_of '']|^'')))),
      Opt (Seq (lit CHR ''^'') (Grp 3 (many1 (none_of '']|'')))),
      Opt (Seq (lit CHR ''|'') (Grp 4 (many1 (none_of '']'')))),
      lit CHR '']'', lit CHR '']'']"

text \<open>\<open>/!?\[([^\]]*)\]\(([^)]+)\)/g\<close>\<close>

definition MARKDOWN_LINK_REGEX :: rx where
  "MARKDOWN_LINK_REGEX = seqs
     [Opt (lit CHR ''!''), lit CHR ''['', Grp 1 (Star (none_of '']'')), lit CHR '']'',
      lit CHR ''('', Grp 2 (many1 (none_of '')'')), lit CHR '')'']"

text \<open>\<open>/#([a-zA-Z0-9_/-]+)/g\<close>\<close>

definition TAG_REGEX :: rx where
  "TAG_REGEX =
     Seq (lit CHR ''#'') (Grp 1 (many1 (Chr (\<lambda>c. is_alnum c \<or> c \<in> set ''_/-''))))"

text \<open>
  The heading pattern of \<open>extractHeadings\<close>,
  \<open>/^(#{1,6})\s+(.+?)(?:\s+\^[a-zA-Z0-9-]+)?\s*$/\<close>, and the block pattern of
  \<open>extractBlocks\<close>, \<open>/\^([a-zA-Z0-9-]+)\s*$/\<close>.
\<close>

definition HEADING_LINE_REGEX :: rx where
  "HEADING_LINE_REGEX = seqs
     [Bol, Grp 1 (Seq (lit CHR ''#'') (upto_more 5 (lit CHR ''#''))), many1 (Chr is_space),
      Grp 2 (many1_lazy (Chr (\<lambda>c. \<not> is_line_terminator c))),
      Opt (seqs [many1 (Chr is_space), lit CHR ''^'',
                 many1 (Chr (\<lambda>c. is_alnum c \<or> c = CHR ''-''))]),
      Star (Chr is_space), Eol]"

definition BLOCK_LINE_REGEX :: rx where
  "BLOCK_LINE_REGEX = seqs
     [lit CHR ''^'', Grp 1 (many1 (Chr (\<lambda>c. is_alnum c \<or> c = CHR ''-''))),
      Star (Chr is_space), Eol]"

section \<open>Data model (types.ts)\<close>

text \<open>
  Frontmatter is the bag of values that the YAML parser returns; \<open>NoteFrontmatter\<close> is a
  cast of that bag, so the values keep their run-time shape.
\<close>

datatype yaml =
    YNull
  | YBool bool
  | YNum int
  | YStr string
  | YList "yaml list"
  | YObj "(string \<times> yaml) list"

type_synonym NoteFrontmatter = "(string \<times> yaml) list"

datatype error =
    NoteNotFound string
  | DeletionNotConfirmed
  | TypeError
  | SyntaxError
  | YAMLException

record ParsedLink =
  raw :: string
  original :: string
  target :: string
  heading :: "string option"
  blockRef :: "string option"
  displayText :: "string option"
  isEmbed :: bool

record Heading =
  htext :: string
  level :: nat
  line :: nat

section \<open>VaultService: the extractors\<close>

text \<open>Truthiness of a frontmatter value, as \<open>if (frontmatterTags)\<close> tests it.\<close>

fun truthy :: "yaml \<Rightarrow> bool" where
  "truthy YNull = False"
| "truthy (YBool b) = b"
| "truthy (YNum n) = (n \<noteq> 0)"
| "truthy (YStr s) = (s \<noteq> [])"
| "truthy (YList xs) = True"
| "truthy (YObj kvs) = True"

text \<open>
  \<open>frontmatterTags.forEach(tag => tags.add(tag.startsWith('#') ? tag.slice(1) : tag))\<close>:
  an element that is not a string has no \<open>startsWith\<close>, which is a TypeError.
\<close>

fun addFrontmatterTags :: "yaml list \<Rightarrow> string list \<Rightarrow> error + string list" where
  "addFrontmatterTags [] acc = Inr acc"
| "addFrontmatterTags (YStr t # ts) acc =
     addFrontmatterTags ts (set_add acc (if startsWith t ''#'' then drop 1 t else t))"
| "addFrontmatterTags (v # ts) acc = Inl TypeError"

text \<open>
  \<open>extractTags(content, frontmatterTags)\<close>. The second argument arrives through the cast
  of the parser's bag: only a list has \<open>forEach\<close>, any other truthy value is a TypeError.
\<close>

definition extractTags :: "string \<Rightarrow> yaml option \<Rightarrow> error + string list" where
  "extractTags body frontmatterTags =
     (case (case frontmatterTags of
              None \<Rightarrow> Inr []
            | Some v \<Rightarrow>
                if \<not> truthy v then Inr []
                else (case v of YList ts \<Rightarrow> addFrontmatterTags ts [] | _ \<Rightarrow> Inl TypeError)) of
        Inl e \<Rightarrow> Inl e
      | Inr fmTags \<Rightarrow>
          Inr (foldl set_add fmTags (map (\<lambda>m. group_str m 1) (matchAll body TAG_REGEX))))"

text \<open>\<open>extractLinks\<close>: the loop over the wiki matches, then the loop over the markdown matches.\<close>

definition wikiLinks :: "string \<Rightarrow> ParsedLink list" where
  "wikiLinks body =
     map (\<lambda>m. \<lparr> raw = m0 m, original = m0 m, target = group_str m 1,
                 heading = mgroups m 2, blockRef = mgroups m 3, displayText = mgroups m 4,
                 isEmbed = startsWith (m0 m) ''!'' \<rparr>)
         (matchAll body WIKI_LINK_REGEX)"

definition markdownLinks :: "string \<Rightarrow> ParsedLink list" where
  "markdownLinks body =
     map (\<lambda>m. \<lparr> raw = m0 m, original = m0 m, target = group_str m 2,
                 heading = None, blockRef = None, displayText = mgroups m 1,
                 isEmbed = startsWith (m0 m) ''!'' \<rparr>)
         (filter (\<lambda>m. \<not> startsWith (group_str m 2) ''http://''
                      \<and> \<not> startsWith (group_str m 2) ''https://'')
                 (matchAll body MARKDOWN_LINK_REGEX))"

definition extractLinks :: "string \<Rightarrow> ParsedLink list" where
  "extractLinks body = wikiLinks body @ markdownLinks body"

definition extractHeadings :: "string \<Rightarrow> Heading list" where
  "extractHeadings body =
     concat (map (\<lambda>(i, ln). case exec HEADING_LINE_REGEX ln of
                               None \<Rightarrow> []
                             | Some m \<Rightarrow> [\<lparr> htext = trim (group_str m 2),
                                            level = length (group_str m 1),
                                            line = i + 1 \<rparr>])
                 (enumerate 0 (split_lines body)))"

definition extractBlocks :: "string \<Rightarrow> (string \<times> nat) list" where
  "extractBlocks body =
     foldl (\<lambda>acc (i, ln). case exec BLOCK_LINE_REGEX ln of
                             None \<Rightarrow> acc
                           | Some m \<Rightarrow> obj_set acc (group_str m 1) (i + 1))
           [] (enumerate 0 (split_lines body))"

section \<open>Notes, the file system and the platform\<close>

record Note =
  path :: string
  name :: string
  content :: string
  frontmatter :: "NoteFrontmatter option"
  tags :: "string list"
  links :: "string list"
  headings :: "Heading list option"
  blocks :: "(string \<times> nat) list option"
  backlinks :: "string list option"
  created :: nat
  modified :: nat

text \<open>
  The vault directory is a map from absolute paths of regular files to their content and
  times; a path that is a directory or does not exist is unmapped. Permissions are not
  modelled. Node's \<open>path\<close> module, gray-matter and the matching of a pattern built at
  run time (\<open>s.match(new RegExp(p, 'gi'))\<close>) are parameters of the model.
\<close>

record vfile =
  fcontent :: string
  mtime :: nat
  birthtime :: nat

type_synonym filesystem = "string \<rightharpoonup> vfile"

record parsed =
  pdata :: NoteFrontmatter
  pcontent :: string

record platform =
  path_join :: "string \<Rightarrow> string \<Rightarrow> string"
  path_relative :: "string \<Rightarrow> string \<Rightarrow> string"
  path_basename :: "string \<Rightarrow> string \<Rightarrow> string"
  path_extname :: "string \<Rightarrow> string"
  matter :: "string \<Rightarrow> error + parsed"
  matter_stringify :: "string \<Rightarrow> NoteFrontmatter \<Rightarrow> string"
  string_match :: "string \<Rightarrow> string \<Rightarrow> string list option"

text \<open>\<open>fs.unlink\<close>: removes a regular file, fails when there is none at the path.\<close>

definition fs_unlink :: "filesystem \<Rightarrow> string \<Rightarrow> filesystem option" where
  "fs_unlink fs p = (case fs p of None \<Rightarrow> None | Some f \<Rightarrow> Some (fs(p := None)))"

text \<open>\<open>fs.writeFile\<close> on an existing file at the time \<open>now\<close>, or creating it.\<close>

definition fs_writeFile :: "filesystem \<Rightarrow> string \<Rightarrow> string \<Rightarrow> nat \<Rightarrow> filesystem" where
  "fs_writeFile fs p txt now =
     fs(p \<mapsto> (case fs p of
                 None \<Rightarrow> \<lparr> fcontent = txt, mtime = now, birthtime = now \<rparr>
               | Some f \<Rightarrow> f\<lparr> fcontent := txt, mtime := now \<rparr>))"

section \<open>VaultService: reading and writing notes\<close>

definition getAbsolutePath :: "platform \<Rightarrow> string \<Rightarrow> string \<Rightarrow> string" where
  "getAbsolutePath P vaultPath relativePath =
     (let cleanPath = (if startsWith relativePath ''/'' then drop 1 relativePath
                       else relativePath)
      in path_join P vaultPath cleanPath)"

text \<open>
  \<open>parseNote\<close>. An exception of gray-matter or of \<open>extractTags\<close> leaves the function: it
  has no handler of its own.
\<close>

definition parseNote ::
  "platform \<Rightarrow> string \<Rightarrow> string \<Rightarrow> string \<Rightarrow> nat \<Rightarrow> nat \<Rightarrow> error + Note" where
  "parseNote P vaultPath filePath txt mt bt =
     (case matter P txt of
        Inl e \<Rightarrow> Inl e
      | Inr pr \<Rightarrow>
          (case extractTags (pcontent pr) (map_of (pdata pr) ''tags'') of
             Inl e \<Rightarrow> Inl e
           | Inr tgs \<Rightarrow>
               Inr \<lparr> path = path_relative P vaultPath filePath,
                     name = path_basename P filePath (path_extname P filePath),
                     content = pcontent pr,
                     frontmatter = (if pdata pr \<noteq> [] then Some (pdata pr) else None),
                     tags = tgs,
                     links = map target (extractLinks (pcontent pr)),
                     headings = Some (extractHeadings (pcontent pr)),
                     blocks = Some (extractBlocks (pcontent pr)),
                     backlinks = None,
                     created = bt,
                     modified = mt \<rparr>))"

text \<open>\<open>readNote\<close>: every exception inside the \<open>try\<close> is rethrown as NOTE_NOT_FOUND.\<close>

definition readNote :: "platform \<Rightarrow> string \<Rightarrow> filesystem \<Rightarrow> string \<Rightarrow> error + Note" where
  "readNote P vaultPath fs relativePath =
     (let absolutePath = getAbsolutePath P vaultPath relativePath
      in case fs absolutePath of
           None \<Rightarrow> Inl (NoteNotFound relativePath)
         | Some f \<Rightarrow>
             (case parseNote P vaultPath absolutePath (fcontent f) (mtime f) (birthtime f) of
                Inl e \<Rightarrow> Inl (NoteNotFound relativePath)
              | Inr n \<Rightarrow> Inr n))"

text \<open>
  \<open>updateNote(relativePath, content, frontmatter, append)\<close>, in the steps of the source:
  the new content, the merged frontmatter, the text written, then the write and the read
  back. An absent argument is \<open>None\<close>; the empty string is falsy in \<open>append && content\<close>.
\<close>

definition updateNote_newContent :: "Note \<Rightarrow> string option \<Rightarrow> bool \<Rightarrow> string" where
  "updateNote_newContent existing content_arg append_flag =
     (let newContent = (case content_arg of Some c \<Rightarrow> c | None \<Rightarrow> content existing)
      in case content_arg of
           Some c \<Rightarrow> if append_flag \<and> c \<noteq> [] then content existing @ [CHR 0x0A, CHR 0x0A] @ c
                     else newContent
         | None \<Rightarrow> newContent)"

definition updateNote_newFrontmatter ::
  "Note \<Rightarrow> NoteFrontmatter option \<Rightarrow> NoteFrontmatter option" where
  "updateNote_newFrontmatter existing frontmatter_arg =
     (case frontmatter_arg of
        Some fm \<Rightarrow> Some (spread (case frontmatter existing of None \<Rightarrow> [] | Some e \<Rightarrow> e) fm)
      | None \<Rightarrow> frontmatter existing)"

definition updateNote_fullContent ::
  "platform \<Rightarrow> string \<Rightarrow> NoteFrontmatter option \<Rightarrow> string" where
  "updateNote_fullContent P newContent newFrontmatter =
     (case newFrontmatter of
        None \<Rightarrow> newContent
      | Some fm \<Rightarrow> if fm \<noteq> [] then matter_stringify P newContent fm else newContent)"

definition updateNote ::
  "platform \<Rightarrow> string \<Rightarrow> filesystem \<Rightarrow> nat \<Rightarrow> string \<Rightarrow> string option \<Rightarrow>
     NoteFrontmatter option \<Rightarrow> bool \<Rightarrow> filesystem \<times> (error + Note)" where
  "updateNote P vaultPath fs now relativePath content_arg frontmatter_arg append_flag =
     (case readNote P vaultPath fs relativePath of
        Inl e \<Rightarrow> (fs, Inl e)
      | Inr existing \<Rightarrow>
          (let absolutePath = getAbsolutePath P vaultPath relativePath;
               newContent = updateNote_newContent existing content_arg append_flag;
               newFrontmatter = updateNote_newFrontmatter existing frontmatter_arg;
               fullContent = updateNote_fullContent P newContent newFrontmatter;
               fs' = fs_writeFile fs absolutePath fullContent now
           in (fs', readNote P vaultPath fs' relativePath)))"

text \<open>
  \<open>VaultService.deleteNote\<close>: the state after the call and its outcome. Every failure of
  \<open>unlink\<close> is rethrown as NOTE_NOT_FOUND.
\<close>

definition VaultService_deleteNote ::
  "platform \<Rightarrow> string \<Rightarrow> filesystem \<Rightarrow> string \<Rightarrow> filesystem \<times> (error + unit)" where
  "VaultService_deleteNote P vaultPath fs relativePath =
     (let absolutePath = getAbsolutePath P vaultPath relativePath
      in case fs_unlink fs absolutePath of
           None \<Rightarrow> (fs, Inl (NoteNotFound relativePath))
         | Some fs' \<Rightarrow> (fs', Inr ()))"

section \<open>VaultService: queries over the scanned notes\<close>

text \<open>
  A query scans the vault first; the list of notes that \<open>getAllNotes\<close> returns is an
  argument of the functions below. \<open>NoteFrontmatter\<close> declares \<open>title?: string\<close> and
  \<open>aliases?: string[]\<close>, and the queries read the two fields at these types: \<open>fm_title\<close>
  and \<open>fm_aliases\<close> give the value of a field that has its declared type, and
  \<open>conforms\<close> says that the two fields of a note are absent, null or of their declared
  type. The queries are modelled for notes that conform.
\<close>

definition fm_field :: "Note \<Rightarrow> string \<Rightarrow> yaml option" where
  "fm_field n k = (case frontmatter n of None \<Rightarrow> None | Some fm \<Rightarrow> map_of fm k)"

fun yaml_strings :: "yaml list \<Rightarrow> string list option" where
  "yaml_strings [] = Some []"
| "yaml_strings (YStr s # vs) = map_option (\<lambda>ss. s # ss) (yaml_strings vs)"
| "yaml_strings (v # vs) = None"

definition fm_title :: "Note \<Rightarrow> string option" where
  "fm_title n = (case fm_field n ''title'' of Some (YStr s) \<Rightarrow> Some s | _ \<Rightarrow> None)"

definition fm_aliases :: "Note \<Rightarrow> string list option" where
  "fm_aliases n = (case fm_field n ''aliases'' of Some (YList vs) \<Rightarrow> yaml_strings vs | _ \<Rightarrow> None)"



datatype matchKind = MatchTitle | MatchHeading | MatchContent | MatchTag | MatchFrontmatter







text \<open>\<open>findNoteByTitle\<close>: four passes of \<open>notes.find\<close>.\<close>

definition findNoteByTitle :: "Note list \<Rightarrow> string \<Rightarrow> Note option" where
  "findNoteByTitle notes title =
     (case find (\<lambda>n. toLowerCase (name n) = toLowerCase title) notes of
        Some n \<Rightarrow> Some n
      | None \<Rightarrow>
     (case find (\<lambda>n. case fm_title n of
                        None \<Rightarrow> False
                      | Some t \<Rightarrow> toLowerCase t = toLowerCase title) notes of
        Some n \<Rightarrow> Some n
      | None \<Rightarrow>
     (case find (\<lambda>n. case fm_aliases n of
                        None \<Rightarrow> False
                      | Some als \<Rightarrow> list_ex (\<lambda>alias. toLowerCase alias = toLowerCase title) als)
                notes of
        Some n \<Rightarrow> Some n
      | None \<Rightarrow> find (\<lambda>n. str_includes (toLowerCase (name n)) (toLowerCase title)) notes)))"

text \<open>\<open>getAllTags\<close>: tag and count, by descending count.\<close>

definition getAllTags :: "Note list \<Rightarrow> (string \<times> nat) list" where
  "getAllTags notes =
     (let allTags = concat (map tags notes)
      in sort_desc (\<lambda>tc. int (snd tc))
           (map (\<lambda>t. (t, count_list allTags t)) (rev (remdups (rev allTags)))))"

record VaultStats =
  totalNotes :: nat
  totalTags :: nat
  totalLinks :: nat
  totalFolders :: nat
  averageNoteLength :: nat
  orphanNotes :: nat

text \<open>
  \<open>getVaultStats\<close>; \<open>folders\<close> is the number of folders that \<open>getAllFolders\<close> returns. The
  keys of the map \<open>backlinks\<close> are the raw link strings of all notes. \<open>Math.round\<close> of the
  quotient is written in integers.
\<close>

definition getVaultStats :: "Note list \<Rightarrow> nat \<Rightarrow> VaultStats" where
  "getVaultStats notes folders =
     (let totalLength = sum_list (map (\<lambda>note. length (content note)) notes);
          backlinkKeys = concat (map links notes)
      in \<lparr> totalNotes = length notes,
           totalTags = length (getAllTags notes),
           totalLinks = sum_list (map (\<lambda>note. length (links note)) notes),
           totalFolders = folders,
           averageNoteLength =
             (if 0 < length notes
              then (2 * totalLength + length notes) div (2 * length notes) else 0),
           orphanNotes =
             length (filter (\<lambda>note. name note \<notin> set backlinkKeys
                                   \<and> path note \<notin> set backlinkKeys) notes) \<rparr>)"

text \<open>\<open>linksMatch\<close>: \<open>slice(0, -3)\<close> drops the last three code units.\<close>

definition linksMatch :: "string \<Rightarrow> Note \<Rightarrow> bool" where
  "linksMatch linkTarget note =
     (let cleanLink = (if endsWith linkTarget ''.md''
                       then take (length linkTarget - 3) linkTarget else linkTarget)
      in if toLowerCase cleanLink = toLowerCase (name note) then True
         else (let cleanNotePath = (if endsWith (path note) ''.md''
                                    then take (length (path note) - 3) (path note)
                                    else path note)
               in if toLowerCase cleanLink = toLowerCase cleanNotePath then True
                  else (case fm_aliases note of
                          None \<Rightarrow> False
                        | Some als \<Rightarrow>
                            list_ex (\<lambda>alias. toLowerCase alias = toLowerCase cleanLink) als)))"





text \<open>
  The tags entry of a parsed bag that \<open>extractTags\<close> accepts: absent, falsy, or a list of
  strings.
\<close>

definition tags_wellformed :: "NoteFrontmatter \<Rightarrow> bool" where
  "tags_wellformed bag =
     (case map_of bag ''tags'' of
        None \<Rightarrow> True
      | Some v \<Rightarrow> \<not> truthy v \<or> (case v of YList ts \<Rightarrow> yaml_strings ts \<noteq> None | _ \<Rightarrow> False))"

section \<open>The syntax check of the RegExp constructor\<close>










section \<open>VaultService: unlinked references\<close>




section \<open>NoteTools, LinkTools and NavigationTools\<close>

text \<open>
  \<open>NoteTools.deleteNote\<close>, on the input record \<open>{path, confirm}\<close>; the result is the
  message returned to the caller.
\<close>

definition NoteTools_deleteNote ::
  "platform \<Rightarrow> string \<Rightarrow> filesystem \<Rightarrow> string \<Rightarrow> bool \<Rightarrow> filesystem \<times> (error + string)" where
  "NoteTools_deleteNote P vaultPath fs ipath confirm =
     (if \<not> confirm then (fs, Inl DeletionNotConfirmed)
      else case VaultService_deleteNote P vaultPath fs ipath of
             (fs', Inl e) \<Rightarrow> (fs', Inl e)
           | (fs', Inr u) \<Rightarrow> (fs', Inr (''Note deleted successfully: '' @ ipath)))"

text \<open>
  \<open>NoteTools.listNotes\<close> up to the formatting of the response: \<open>allNotes\<close> is the result
  of \<open>getAllNotes(input.folder)\<close>; the function returns \<open>paginatedNotes\<close> and \<open>total\<close>.
  An empty tag string is falsy and filters nothing.
\<close>

definition filteredNotes :: "Note list \<Rightarrow> string option \<Rightarrow> Note list" where
  "filteredNotes allNotes tag =
     sort_desc (\<lambda>n. int (modified n))
       (case tag of
          None \<Rightarrow> allNotes
        | Some t \<Rightarrow> if t = [] then allNotes else filter (\<lambda>note. t \<in> set (tags note)) allNotes)"

definition listNotes :: "Note list \<Rightarrow> string option \<Rightarrow> nat \<Rightarrow> nat \<Rightarrow> Note list \<times> nat" where
  "listNotes allNotes tag limit offset =
     (let sortedNotes = filteredNotes allNotes tag;
          total = length sortedNotes;
          paginatedNotes = slice sortedNotes offset (offset + limit)
      in (paginatedNotes, total))"

text \<open>
  \<open>LinkTools.getOrphans\<close> up to the formatting: the paths of the notes that no link
  resolves to, where a link resolves by \<open>findNoteByTitle\<close>.
\<close>

definition getOrphans :: "Note list \<Rightarrow> string list" where
  "getOrphans allNotes =
     (let hasBacklinks =
            concat (map (\<lambda>note. concat (map (\<lambda>link. case findNoteByTitle allNotes link of
                                                       None \<Rightarrow> []
                                                     | Some targetNote \<Rightarrow> [path targetNote])
                                             (links note)))
                        allNotes)
      in map path (filter (\<lambda>note. path note \<notin> set hasBacklinks) allNotes))"







section \<open>Instances for closed examples\<close>

text \<open>
  An instance of the platform: paths are joined with a slash, and a file without a
  frontmatter block parses to an empty bag and the whole text.
\<close>

definition demo_platform :: platform where
  "demo_platform =
     \<lparr> path_join = (\<lambda>a b. a @ ''/'' @ b),
       path_relative = (\<lambda>a b. drop (length a + 1) b),
       path_basename = (\<lambda>p ext. let b = rev (takeWhile (\<lambda>c. c \<noteq> CHR ''/'') (rev p))
                                in if endsWith b ext then take (length b - length ext) b else b),
       path_extname = (\<lambda>p. if endsWith p ''.md'' then ''.md'' else []),
       matter = (\<lambda>s. Inr \<lparr> pdata = [], pcontent = s \<rparr>),
       matter_stringify = (\<lambda>c fm. c),
       string_match = (\<lambda>pat s. None) \<rparr>"

definition demo_file :: vfile where
  "demo_file = \<lparr> fcontent = ''Original'', mtime = 5, birthtime = 0 \<rparr>"

text \<open>A note without frontmatter, as \<open>parseNote\<close> builds it.\<close>

definition demo_note :: "string \<Rightarrow> string \<Rightarrow> string \<Rightarrow> string list \<Rightarrow> nat \<Rightarrow> Note" where
  "demo_note p n c ls m =
     \<lparr> path = p, name = n, content = c, frontmatter = None, tags = [], links = ls,
       headings = Some [], blocks = Some [], backlinks = None, created = 0, modified = m \<rparr>"

section \<open>Properties\<close>

subsection \<open>Pagination\<close>

lemma slice_pages:
  "concat (map (\<lambda>k. slice xs (k * L) (k * L + L)) [0..<n]) = take (n * L) xs"
proof (induction n)
  case 0
  show ?case by simp
next
  case (Suc n)
  have "take (n * L) xs @ take L (drop (n * L) xs) = take (n * L + L) xs"
    by (simp add: take_add)
  with Suc show ?case by (simp add: slice_def add.commute)
qed

lemma mset_sort_desc: "mset (sort_desc f xs) = mset xs"
  by (simp add: sort_desc_def)

text \<open>
  C5. With a limit \<open>L > 0\<close> and an offset \<open>off\<close> up to the total, \<open>listNotes\<close> returns
  exactly \<open>min L (total - off)\<close> notes and reports the total; the pages at offsets
  \<open>0, L, 2L, ...\<close> concatenate to the whole filtered sequence in its sorted order, which
  holds every filtered note exactly once.
\<close>

theorem listNotes_pagination:
  assumes "0 < L" and "off \<le> length (filteredNotes allNotes tag)"
  shows "length (fst (listNotes allNotes tag L off))
           = min L (length (filteredNotes allNotes tag) - off)
         \<and> snd (listNotes allNotes tag L off) = length (filteredNotes allNotes tag)
         \<and> (length (filteredNotes allNotes tag) \<le> n * L \<longrightarrow>
              concat (map (\<lambda>k. fst (listNotes allNotes tag L (k * L))) [0..<n])
                = filteredNotes allNotes tag)
         \<and> mset (filteredNotes allNotes tag)
              = mset (filter (\<lambda>note. case tag of None \<Rightarrow> True
                                       | Some t \<Rightarrow> t = [] \<or> t \<in> set (tags note)) allNotes)"
proof -
  let ?S = "filteredNotes allNotes tag"
  have a: "length (fst (listNotes allNotes tag L off)) = min L (length ?S - off)"
    by (simp add: listNotes_def Let_def slice_def min.commute)
  have b: "snd (listNotes allNotes tag L off) = length ?S"
    by (simp add: listNotes_def Let_def)
  have c: "concat (map (\<lambda>k. fst (listNotes allNotes tag L (k * L))) [0..<n]) = take (n * L) ?S"
    using slice_pages [of ?S L n] by (simp add: listNotes_def Let_def)
  have d: "mset ?S = mset (filter (\<lambda>note. case tag of None \<Rightarrow> True
                                       | Some t \<Rightarrow> t = [] \<or> t \<in> set (tags note)) allNotes)"
    by (cases tag) (simp_all add: filteredNotes_def mset_sort_desc)
  from a b c d show ?thesis by simp
qed

theorem listNotes_pagination_witness:
  "length (fst (listNotes [demo_note ''a.md'' ''a'' [] [] 5, demo_note ''b.md'' ''b'' [] [] 7,
                           demo_note ''c.md'' ''c'' [] [] 6] None 2 2)) = 1
   \<and> snd (listNotes [demo_note ''a.md'' ''a'' [] [] 5, demo_note ''b.md'' ''b'' [] [] 7,
                     demo_note ''c.md'' ''c'' [] [] 6] None 2 2) = 3
   \<and> concat (map (\<lambda>k. fst (listNotes [demo_note ''a.md'' ''a'' [] [] 5,
                                       demo_note ''b.md'' ''b'' [] [] 7,
                                       demo_note ''c.md'' ''c'' [] [] 6] None 2 (k * 2))) [0..<2])
       = [demo_note ''b.md'' ''b'' [] [] 7, demo_note ''c.md'' ''c'' [] [] 6,
          demo_note ''a.md'' ''a'' [] [] 5]"
proof -
  let ?ns = "[demo_note ''a.md'' ''a'' [] [] 5, demo_note ''b.md'' ''b'' [] [] 7,
              demo_note ''c.md'' ''c'' [] [] 6]"
  have s: "filteredNotes ?ns None
             = [demo_note ''b.md'' ''b'' [] [] 7, demo_note ''c.md'' ''c'' [] [] 6,
                demo_note ''a.md'' ''a'' [] [] 5]"
    by (simp add: filteredNotes_def sort_desc_def demo_note_def)
  have h: "2 \<le> length (filteredNotes ?ns None)"
    by (simp add: s)
  show ?thesis
    using listNotes_pagination [of 2 2 ?ns None 2, OF _ h] by (simp add: s)
qed

subsection \<open>Deletion\<close>

text \<open>
  C8. Without confirmation \<open>NoteTools.deleteNote\<close> fails and the file system is as
  before; with confirmation it fails with NOTE_NOT_FOUND, again without a change, when no
  file is at the path, and otherwise removes exactly that file. \<open>VaultService.deleteNote\<close>
  itself fails with NOTE_NOT_FOUND exactly when no file is at the path.
\<close>

theorem deleteNote_confirmed_or_unchanged:
  "(\<not> confirm \<longrightarrow>
      NoteTools_deleteNote P vaultPath fs p confirm = (fs, Inl DeletionNotConfirmed))
   \<and> (confirm \<and> fs (getAbsolutePath P vaultPath p) = None \<longrightarrow>
      NoteTools_deleteNote P vaultPath fs p confirm = (fs, Inl (NoteNotFound p)))
   \<and> (confirm \<and> fs (getAbsolutePath P vaultPath p) \<noteq> None \<longrightarrow>
      NoteTools_deleteNote P vaultPath fs p confirm
        = (fs((getAbsolutePath P vaultPath p) := None),
           Inr (''Note deleted successfully: '' @ p)))
   \<and> (fs (getAbsolutePath P vaultPath p) = None \<longrightarrow>
      VaultService_deleteNote P vaultPath fs p = (fs, Inl (NoteNotFound p)))
   \<and> (fs (getAbsolutePath P vaultPath p) \<noteq> None \<longrightarrow>
      VaultService_deleteNote P vaultPath fs p
        = (fs((getAbsolutePath P vaultPath p) := None), Inr ()))"
  by (auto simp: NoteTools_deleteNote_def VaultService_deleteNote_def fs_unlink_def Let_def)

theorem deleteNote_confirmed_or_unchanged_witness:
  "NoteTools_deleteNote demo_platform ''/v'' [''/v/a.md'' \<mapsto> demo_file] ''a.md'' False
     = ([''/v/a.md'' \<mapsto> demo_file], Inl DeletionNotConfirmed)
   \<and> NoteTools_deleteNote demo_platform ''/v'' [''/v/a.md'' \<mapsto> demo_file] ''b.md'' True
     = ([''/v/a.md'' \<mapsto> demo_file], Inl (NoteNotFound ''b.md''))
   \<and> NoteTools_deleteNote demo_platform ''/v'' [''/v/a.md'' \<mapsto> demo_file] ''a.md'' True
     = ([''/v/a.md'' \<mapsto> demo_file](''/v/a.md'' := None),
        Inr ''Note deleted successfully: a.md'')
   \<and> VaultService_deleteNote demo_platform ''/v'' [''/v/a.md'' \<mapsto> demo_file] ''b.md''
     = ([''/v/a.md'' \<mapsto> demo_file], Inl (NoteNotFound ''b.md''))
   \<and> VaultService_deleteNote demo_platform ''/v'' [''/v/a.md'' \<mapsto> demo_file] ''a.md''
     = ([''/v/a.md'' \<mapsto> demo_file](''/v/a.md'' := None), Inr ())"
proof -
  let ?fs = "[''/v/a.md'' \<mapsto> demo_file]"
  have pa: "getAbsolutePath demo_platform ''/v'' ''a.md'' = ''/v/a.md''"
    by (simp add: getAbsolutePath_def demo_platform_def startsWith_def)
  have pb: "getAbsolutePath demo_platform ''/v'' ''b.md'' = ''/v/b.md''"
    by (simp add: getAbsolutePath_def demo_platform_def startsWith_def)
  show ?thesis
    using deleteNote_confirmed_or_unchanged [of False demo_platform "''/v''" ?fs "''a.md''"]
      deleteNote_confirmed_or_unchanged [of True demo_platform "''/v''" ?fs "''b.md''"]
      deleteNote_confirmed_or_unchanged [of True demo_platform "''/v''" ?fs "''a.md''"]
    by (simp add: pa pb)
qed

subsection \<open>Link extraction\<close>

text \<open>
  C1 as stated fails for the wiki syntax: the loop over the wiki matches pushes every
  match, so a wiki link whose target is a URL is returned.
\<close>

theorem extractLinks_wiki_url_counterexample:
  "map target (extractLinks ''see [[http://a.io]]'') = [''http://a.io'']
   \<and> startsWith ''http://a.io'' ''http://''"
  by code_simp

text \<open>
  C1, amended. \<open>extractLinks\<close> returns the wiki links followed by the markdown links, and
  no link extracted from the markdown syntax \<open>[text](target)\<close> has a target that begins
  with \<open>http://\<close> or \<open>https://\<close>; the targets of wiki links are not filtered.
\<close>

theorem extractLinks_markdown_internal:
  "extractLinks body = wikiLinks body @ markdownLinks body
   \<and> (\<forall>l \<in> set (markdownLinks body).
         \<not> startsWith (target l) ''http://'' \<and> \<not> startsWith (target l) ''https://'')"
  by (auto simp: extractLinks_def markdownLinks_def)

theorem extractLinks_markdown_internal_witness:
  "map target (extractLinks ''[a](b.md) [x](https://y.io) [[http://z.io]]'')
     = [''http://z.io'', ''b.md'']
   \<and> \<not> startsWith ''b.md'' ''http://'' \<and> \<not> startsWith ''b.md'' ''https://''"
proof -
  let ?body = "''[a](b.md) [x](https://y.io) [[http://z.io]]''"
  have w: "map target (wikiLinks ?body) = [''http://z.io'']"
    by code_simp
  have m: "map target (markdownLinks ?body) = [''b.md'']"
    by code_simp
  from m obtain l where l: "markdownLinks ?body = [l]" and t: "target l = ''b.md''"
    by (cases "markdownLinks ?body") auto
  show ?thesis
    using extractLinks_markdown_internal [of ?body] w m by (simp add: l t)
qed

subsection \<open>Orphans\<close>

text \<open>
  C9 fails on the code. Note A links to \<open>b\<close> and the vault has a note B: \<open>getVaultStats\<close>
  looks for the key \<open>B\<close> or \<open>B.md\<close> among the raw links and counts both notes as
  orphans, \<open>getOrphans\<close> resolves \<open>b\<close> to B by \<open>findNoteByTitle\<close> and lists A only;
  for \<open>linksMatch\<close>, and so for \<open>getBacklinks\<close>, the link of A is a backlink of B.
\<close>

theorem orphan_counts_differ:
  "orphanNotes (getVaultStats [demo_note ''A.md'' ''A'' ''see [[b]]'' [''b''] 5,
                               demo_note ''B.md'' ''B'' ''text'' [] 6] 0) = 2
   \<and> getOrphans [demo_note ''A.md'' ''A'' ''see [[b]]'' [''b''] 5,
                  demo_note ''B.md'' ''B'' ''text'' [] 6] = [''A.md'']
   \<and> linksMatch ''b'' (demo_note ''B.md'' ''B'' ''text'' [] 6)"
  by code_simp

subsection \<open>Updates\<close>

lemma updateNote_newContent_replace:
  "updateNote_newContent existing (Some c) False = c"
  by (simp add: updateNote_newContent_def)

lemma updateNote_newContent_unchanged:
  "updateNote_newContent existing None a = content existing"
  by (simp add: updateNote_newContent_def)

lemma updateNote_newContent_append:
  "c \<noteq> [] \<Longrightarrow>
     updateNote_newContent existing (Some c) True = content existing @ [CHR 0x0A, CHR 0x0A] @ c"
  by (simp add: updateNote_newContent_def)

lemma map_of_obj_set: "map_of (obj_set kvs k v) = (map_of kvs)(k \<mapsto> v)"
  by (induction kvs) (auto simp: fun_eq_iff)

lemma map_of_spread:
  "distinct (map fst over) \<Longrightarrow> map_of (spread base over) = map_of base ++ map_of over"
  unfolding spread_def
proof (induction over arbitrary: base)
  case Nil
  show ?case by simp
next
  case (Cons kv over)
  let ?f = "\<lambda>kv acc. obj_set acc (fst kv) (snd kv)"
  obtain k v where kv: "kv = (k, v)"
    by (cases kv)
  from Cons.prems kv have k: "k \<notin> dom (map_of over)" and d: "distinct (map fst over)"
    by (auto simp: dom_map_of_conv_image_fst)
  have "map_of (fold ?f (kv # over) base) = map_of (fold ?f over (obj_set base k v))"
    by (simp add: kv)
  also have "\<dots> = map_of (obj_set base k v) ++ map_of over"
    by (rule Cons.IH [OF d])
  also have "\<dots> = (map_of base)(k \<mapsto> v) ++ map_of over"
    by (simp only: map_of_obj_set)
  also from k have "\<dots> = (map_of base ++ map_of over)(k \<mapsto> v)"
    by (rule map_add_upd_left)
  also have "\<dots> = map_of base ++ (map_of over)(k \<mapsto> v)"
    by (simp only: map_add_upd)
  also have "\<dots> = map_of base ++ map_of (kv # over)"
    by (simp only: kv map_of.simps fst_conv snd_conv)
  finally show ?case .
qed

text \<open>
  C6 fails on the code for an empty content string: \<open>append && content\<close> is false for
  \<open>''\<close>, so the note is overwritten with the empty string instead of being appended to.
\<close>

theorem updateNote_append_empty_overwrites:
  "updateNote_newContent (demo_note ''a.md'' ''a'' ''Original'' [] 5) (Some []) True = []
   \<and> map_option fcontent
        (fst (updateNote demo_platform ''/v'' [''/v/a.md'' \<mapsto> demo_file] 9 ''a.md''
                (Some []) None True) ''/v/a.md'') = Some []"
  by code_simp

subsection \<open>Link resolution and backlinks\<close>





subsection \<open>Parsing\<close>

lemma addFrontmatterTags_strings:
  "yaml_strings ts \<noteq> None \<Longrightarrow> \<exists>r. addFrontmatterTags ts acc = Inr r"
  by (induction ts acc rule: addFrontmatterTags.induct) auto

lemma extractTags_wellformed:
  assumes "tags_wellformed bag"
  shows "\<exists>r. extractTags body (map_of bag ''tags'') = Inr r"
proof (cases "map_of bag ''tags''")
  case None
  then show ?thesis by (simp add: extractTags_def)
next
  case (Some v)
  show ?thesis
  proof (cases "truthy v")
    case False
    with Some show ?thesis by (simp add: extractTags_def)
  next
    case True
    with Some assms obtain ts where v: "v = YList ts" and s: "yaml_strings ts \<noteq> None"
      by (auto simp: tags_wellformed_def split: yaml.splits)
    from addFrontmatterTags_strings [OF s] obtain r where "addFrontmatterTags ts [] = Inr r"
      by blast
    with Some v show ?thesis by (simp add: extractTags_def)
  qed
qed

text \<open>
  C3 as stated fails: \<open>parseNote\<close> has no handler. For the file
  \<open>---\ntags: research\n---\nbody\<close> gray-matter returns the bag \<open>{tags: 'research'}\<close>; a string
  has no \<open>forEach\<close>, and the TypeError of \<open>extractTags\<close> leaves \<open>parseNote\<close>. An exception
  of gray-matter itself leaves it as well.
\<close>

theorem parseNote_throws_counterexample:
  "parseNote (demo_platform \<lparr> matter := (\<lambda>s. Inr \<lparr> pdata = [(''tags'', YStr ''research'')],
                                                    pcontent = ''body'' \<rparr>) \<rparr>)
     ''/v'' ''/v/a.md''
     (''---'' @ [CHR 0x0A] @ ''tags: research'' @ [CHR 0x0A] @ ''---'' @ [CHR 0x0A] @ ''body'')
     5 0 = Inl TypeError
   \<and> parseNote (demo_platform \<lparr> matter := (\<lambda>s. Inl YAMLException) \<rparr>)
     ''/v'' ''/v/a.md'' (''---'' @ [CHR 0x0A] @ ''tags: ['' @ [CHR 0x0A] @ ''---'') 5 0
     = Inl YAMLException"
  by code_simp

text \<open>
  C3, amended. Whenever gray-matter returns a parse whose tags entry is absent, falsy or
  a list of strings, \<open>parseNote\<close> returns a note: its content is the body that gray-matter
  returns, its frontmatter is null for an empty bag, and its links, headings and blocks
  are what the extractors, which are total, find in the body.
\<close>

theorem parseNote_returns:
  assumes "matter P txt = Inr pr" and "tags_wellformed (pdata pr)"
  shows "\<exists>n. parseNote P vaultPath filePath txt mt bt = Inr n
             \<and> content n = pcontent pr
             \<and> frontmatter n = (if pdata pr = [] then None else Some (pdata pr))
             \<and> links n = map target (extractLinks (pcontent pr))
             \<and> headings n = Some (extractHeadings (pcontent pr))
             \<and> blocks n = Some (extractBlocks (pcontent pr))"
proof -
  from extractTags_wellformed [OF assms(2)]
  obtain r where "extractTags (pcontent pr) (map_of (pdata pr) ''tags'') = Inr r"
    by blast
  with assms(1) show ?thesis
    by (simp add: parseNote_def)
qed

theorem parseNote_returns_witness:
  "\<exists>n. parseNote demo_platform ''/v'' ''/v/a.md'' ''see [[B]] #idea'' 5 0 = Inr n
       \<and> content n = ''see [[B]] #idea''
       \<and> frontmatter n = None
       \<and> links n = [''B'']
       \<and> headings n = Some []
       \<and> blocks n = Some []"
proof -
  let ?pr = "\<lparr> pdata = [], pcontent = ''see [[B]] #idea'' \<rparr>"
  have m: "matter demo_platform ''see [[B]] #idea'' = Inr ?pr"
    by (simp add: demo_platform_def)
  have w: "tags_wellformed (pdata ?pr)"
    by (simp add: tags_wellformed_def)
  have l: "map target (extractLinks ''see [[B]] #idea'') = [''B'']"
    by code_simp
  have h: "extractHeadings ''see [[B]] #idea'' = []"
    by code_simp
  have b: "extractBlocks ''see [[B]] #idea'' = []"
    by code_simp
  show ?thesis
    using parseNote_returns [OF m w, of "''/v''" "''/v/a.md''" 5 0] by (simp add: l h b)
qed

text \<open>The callers handle what \<open>parseNote\<close> throws: \<open>readNote\<close> reports NOTE_NOT_FOUND.\<close>

lemma readNote_parse_failure:
  assumes "fs (getAbsolutePath P vaultPath rel) = Some f"
    and "parseNote P vaultPath (getAbsolutePath P vaultPath rel) (fcontent f) (mtime f)
           (birthtime f) = Inl e"
  shows "readNote P vaultPath fs rel = Inl (NoteNotFound rel)"
  using assms by (simp add: readNote_def)

subsection \<open>Unlinked references and the pattern syntax\<close>









subsection \<open>The connected subgraph\<close>







subsection \<open>Content search\<close>





text \<open>\<open>indexOf\<close> gives the first index at which the query stands.\<close>

lemma indexOf_first:
  "indexOf s q = Some i \<Longrightarrow>
     i \<le> length s \<and> startsWith (drop i s) q \<and> (\<forall>j < i. \<not> startsWith (drop j s) q)"
proof (induction s arbitrary: i)
  case Nil
  then show ?case by (auto simp: startsWith_def split: if_splits)
next
  case (Cons c s)
  show ?case
  proof (cases "startsWith (c # s) q")
    case True
    with Cons.prems show ?thesis by simp
  next
    case False
    with Cons.prems obtain i' where i: "i = Suc i'" and r: "indexOf s q = Some i'"
      by auto
    from Cons.IH [OF r] False i show ?thesis
      by (auto simp: less_Suc_eq_0_disj)
  qed
qed








end
